theory Spec2Isabelle
  imports Main "HOL-Library.Sublist"
begin

section \<open>JavaScript values\<close>

text \<open>
  The values that flow through the application: cache-key segments, parsed JSON bodies
  and identifiers. TypeScript's annotations are erased at run time, so one type of
  values serves for all of them. A JavaScript \<open>number\<close> is modelled by \<open>int\<close>:
  every identifier of the remote API is an integer. An object is the list of its own
  properties in insertion order.
\<close>

datatype jsvalue =
    JNull
  | JBool bool
  | JNum int
  | JStr string
  | JArr "jsvalue list"
  | JObj "(string \<times> jsvalue) list"

text \<open>JavaScript's \<open>ToBoolean\<close>, which \<open>!!x\<close> computes.\<close>

fun truthy :: "jsvalue \<Rightarrow> bool" where
  "truthy JNull = False"
| "truthy (JBool b) = b"
| "truthy (JNum n) = (n \<noteq> 0)"
| "truthy (JStr s) = (s \<noteq> [])"
| "truthy (JArr xs) = True"
| "truthy (JObj ps) = True"

section \<open>The key builder (hooks/queries/queryKeys.ts)\<close>

text \<open>
  An entity key is an ordered sequence of segments. The spread \<open>[...k, s]\<close> is
  \<open>k @ [s]\<close>. The shorthand \<open>{ filters }\<close> is the object with the single property
  \<open>filters\<close>, whose value is the \<open>Record<string, unknown>\<close> passed in.
\<close>

type_synonym key = "jsvalue list"

definition posts_all :: key where
  "posts_all = [JStr ''posts'']"

definition posts_lists :: "unit \<Rightarrow> key" where
  "posts_lists u = posts_all @ [JStr ''list'']"

definition posts_list :: "(string \<times> jsvalue) list \<Rightarrow> key" where
  "posts_list filters = posts_lists () @ [JObj [(''filters'', JObj filters)]]"

definition posts_details :: "unit \<Rightarrow> key" where
  "posts_details u = posts_all @ [JStr ''detail'']"

definition posts_detail :: "jsvalue \<Rightarrow> key" where
  "posts_detail ident = posts_details () @ [ident]"

definition posts_comments :: "jsvalue \<Rightarrow> key" where
  "posts_comments postId = posts_detail postId @ [JStr ''comments'']"

definition users_all :: key where
  "users_all = [JStr ''users'']"

definition users_lists :: "unit \<Rightarrow> key" where
  "users_lists u = users_all @ [JStr ''list'']"

definition users_details :: "unit \<Rightarrow> key" where
  "users_details u = users_all @ [JStr ''detail'']"

definition users_detail :: "jsvalue \<Rightarrow> key" where
  "users_detail ident = users_details () @ [ident]"

text \<open>
  The members of \<open>queryKeys.posts\<close> and of \<open>queryKeys.users\<close>, as the ways a key of
  each namespace can be built, and the key each one builds.
\<close>

datatype posts_member =
    PostsAll
  | PostsLists
  | PostsList "(string \<times> jsvalue) list"
  | PostsDetails
  | PostsDetail jsvalue
  | PostsComments jsvalue

datatype users_member =
    UsersAll
  | UsersLists
  | UsersDetails
  | UsersDetail jsvalue

fun posts_key :: "posts_member \<Rightarrow> key" where
  "posts_key PostsAll = posts_all"
| "posts_key PostsLists = posts_lists ()"
| "posts_key (PostsList filters) = posts_list filters"
| "posts_key PostsDetails = posts_details ()"
| "posts_key (PostsDetail ident) = posts_detail ident"
| "posts_key (PostsComments postId) = posts_comments postId"

fun users_key :: "users_member \<Rightarrow> key" where
  "users_key UsersAll = users_all"
| "users_key UsersLists = users_lists ()"
| "users_key UsersDetails = users_details ()"
| "users_key (UsersDetail ident) = users_detail ident"

section \<open>The resource client (services/api.ts)\<close>

text \<open>
  An error object made by a built-in constructor from a message. A rejected promise
  carries one; \<open>Inl\<close> of the result type below is the rejection.
\<close>

datatype js_error = Error string | TypeError string | SyntaxError string

fun error_name :: "js_error \<Rightarrow> string" where
  "error_name (Error m) = ''Error''"
| "error_name (TypeError m) = ''TypeError''"
| "error_name (SyntaxError m) = ''SyntaxError''"

fun error_message :: "js_error \<Rightarrow> string" where
  "error_message (Error m) = m"
| "error_message (TypeError m) = m"
| "error_message (SyntaxError m) = m"

text \<open>
  Reading a data property of such an error. The constructor sets \<open>message\<close>, and
  \<open>name\<close> comes with the class; a property that nothing sets reads as \<open>undefined\<close>,
  which is \<open>None\<close> here. Inherited methods and the stack trace an engine attaches are
  not modelled.
\<close>

definition error_property :: "js_error \<Rightarrow> string \<Rightarrow> jsvalue option" where
  "error_property e p =
     (if p = ''message'' then Some (JStr (error_message e))
      else if p = ''name'' then Some (JStr (error_name e))
      else None)"

text \<open>
  What a template literal does to an interpolated value: JavaScript's \<open>ToString\<close>.
  An array is its elements joined by commas, with \<open>null\<close> elements left empty.
\<close>

fun digits :: "nat \<Rightarrow> string" where
  "digits n =
     (if n < 10 then [''0123456789'' ! n]
      else digits (n div 10) @ [''0123456789'' ! (n mod 10)])"

definition number_to_string :: "int \<Rightarrow> string" where
  "number_to_string n =
     (if n < 0 then CHR ''-'' # digits (nat (- n)) else digits (nat n))"

fun join :: "string \<Rightarrow> string list \<Rightarrow> string" where
  "join sep [] = []"
| "join sep [s] = s"
| "join sep (s # t # ss) = s @ sep @ join sep (t # ss)"

fun to_string :: "jsvalue \<Rightarrow> string" where
  "to_string JNull = ''null''"
| "to_string (JBool b) = (if b then ''true'' else ''false'')"
| "to_string (JNum n) = number_to_string n"
| "to_string (JStr s) = s"
| "to_string (JArr xs) =
     join '','' (map (\<lambda>x. if x = JNull then [] else to_string x) xs)"
| "to_string (JObj ps) = ''[object Object]''"

text \<open>
  The transport collaborator. \<open>fetch(url)\<close> either rejects (no response at all) or
  resolves to a response, of which the client reads \<open>ok\<close>, \<open>status\<close> and the outcome
  of \<open>json()\<close>: the parsed body, or the parser's error. The network is a parameter
  of the client: a function from the URL to the outcome of the request.
\<close>

record response =
  ok :: bool
  status :: nat
  json :: "js_error + jsvalue"

datatype fetch_outcome = Rejected js_error | Resolved response

type_synonym network = "string \<Rightarrow> fetch_outcome"

definition BASE_URL :: string where
  "BASE_URL = ''https://jsonplaceholder.typicode.com''"

definition fetchFromAPI :: "network \<Rightarrow> string \<Rightarrow> js_error + jsvalue" where
  "fetchFromAPI fetch endpoint =
     (case fetch (BASE_URL @ endpoint) of
        Rejected e \<Rightarrow> Inl e
      | Resolved r \<Rightarrow>
          if \<not> ok r
          then Inl (Error (''HTTP error! status: '' @ number_to_string (int (status r))))
          else json r)"

definition postsAPI_getPosts :: "network \<Rightarrow> js_error + jsvalue" where
  "postsAPI_getPosts fetch = fetchFromAPI fetch ''/posts''"

definition postsAPI_getPost :: "network \<Rightarrow> jsvalue \<Rightarrow> js_error + jsvalue" where
  "postsAPI_getPost fetch ident = fetchFromAPI fetch (''/posts/'' @ to_string ident)"

definition postsAPI_getPostComments :: "network \<Rightarrow> jsvalue \<Rightarrow> js_error + jsvalue" where
  "postsAPI_getPostComments fetch postId =
     fetchFromAPI fetch (''/posts/'' @ to_string postId @ ''/comments'')"

definition usersAPI_getUsers :: "network \<Rightarrow> js_error + jsvalue" where
  "usersAPI_getUsers fetch = fetchFromAPI fetch ''/users''"

definition usersAPI_getUser :: "network \<Rightarrow> jsvalue \<Rightarrow> js_error + jsvalue" where
  "usersAPI_getUser fetch ident = fetchFromAPI fetch (''/users/'' @ to_string ident)"

text \<open>
  Modelled from the spec: the \<open>Post\<close> type of services/types.ts, which is not among
  the sources. Section 3 of the specification gives its shape,
  \<open>{ id: integer, userId: integer, title: string, body: string }\<close>; \<open>/posts\<close> is
  expected to answer with an array of them. The type \<open>'c\<close> of the code units of its
  strings is a parameter of the record.
\<close>

record 'c post =
  post_id :: int
  userId :: int
  title :: "'c list"
  body :: "'c list"

fun is_num :: "jsvalue option \<Rightarrow> bool" where
  "is_num (Some (JNum n)) = True"
| "is_num v = False"

fun is_str :: "jsvalue option \<Rightarrow> bool" where
  "is_str (Some (JStr s)) = True"
| "is_str v = False"

fun is_Post :: "jsvalue \<Rightarrow> bool" where
  "is_Post (JObj ps) =
     (is_num (map_of ps ''id'') \<and> is_num (map_of ps ''userId'')
      \<and> is_str (map_of ps ''title'') \<and> is_str (map_of ps ''body''))"
| "is_Post v = False"

fun is_Post_array :: "jsvalue \<Rightarrow> bool" where
  "is_Post_array (JArr vs) = list_all is_Post vs"
| "is_Post_array v = False"

text \<open>
  Two servers: one that answers every request with HTTP 500, and one that answers
  with HTTP 200 and a JSON body that is no array of posts.
\<close>

definition server_500 :: network where
  "server_500 url = Resolved \<lparr>ok = False, status = 500, json = Inr (JObj [])\<rparr>"

definition server_wrong_shape :: network where
  "server_wrong_shape url =
     Resolved \<lparr>ok = True, status = 200, json = Inr (JObj [(''unexpected'', JBool True)])\<rparr>"

section \<open>The query hooks (hooks/queries/usePosts.ts)\<close>

text \<open>
  A hook hands \<open>useQuery\<close> an options object. The producer \<open>queryFn\<close> is a thunk over
  one call of the resource client; it is kept as data, so that a log of the producers
  invoked can be read, and \<open>invoke\<close> runs it. \<open>enabled\<close> is \<open>None\<close> where the hook does
  not set it. Of the caller's \<open>options\<close> of \<open>usePost\<close> only \<open>enabled\<close> is kept (a
  boolean, when present): spread after the hook's own \<open>enabled: !!id\<close>, it replaces it.
\<close>

datatype producer = GetPosts | GetPost jsvalue | GetPostComments jsvalue

fun invoke :: "network \<Rightarrow> producer \<Rightarrow> js_error + jsvalue" where
  "invoke fetch GetPosts = postsAPI_getPosts fetch"
| "invoke fetch (GetPost ident) = postsAPI_getPost fetch ident"
| "invoke fetch (GetPostComments postId) = postsAPI_getPostComments fetch postId"

record query_options =
  queryKey :: key
  queryFn :: producer
  enabled :: "bool option"

record overrides =
  enabled_override :: "bool option"

definition usePosts_options :: query_options where
  "usePosts_options = \<lparr>queryKey = posts_lists (), queryFn = GetPosts, enabled = None\<rparr>"

definition usePost_options :: "jsvalue \<Rightarrow> overrides option \<Rightarrow> query_options" where
  "usePost_options ident options =
     \<lparr>queryKey = posts_detail ident,
      queryFn = GetPost ident,
      enabled =
        (case options of
           None \<Rightarrow> Some (truthy ident)
         | Some ov \<Rightarrow>
             (case enabled_override ov of
                None \<Rightarrow> Some (truthy ident)
              | Some b \<Rightarrow> Some b))\<rparr>"

definition usePostComments_options :: "jsvalue \<Rightarrow> query_options" where
  "usePostComments_options postId =
     \<lparr>queryKey = posts_comments postId,
      queryFn = GetPostComments postId,
      enabled = Some (truthy postId)\<rparr>"

section \<open>The orchestration layer\<close>

text \<open>
  Modelled from the spec: \<open>useQuery\<close> and its cache belong to the caching library,
  which is not among the sources. Sections 3 and 4.3 of the specification describe them:
  a cache entry per key with a status among fresh, stale, fetching and error; an entry
  is created and fetched on the first request for its key; fresh data is served without
  a network call; stale data is served at once while a refresh is started; requesters
  of a key in flight share the operation; an entry in error is fetched again only on a
  manual refetch or retry; and a query whose \<open>enabled\<close> gate is false does not invoke
  the producer and reports no data, no error and not loading. The record of the state
  holds, beside the cache, the log of the producers invoked so far.
\<close>

datatype entry_status = Fresh | Stale | Fetching | Failed

record cache_entry =
  entry_data :: "jsvalue option"
  entry_error :: "js_error option"
  entry_status :: entry_status

record orchestrator =
  cache :: "key \<Rightarrow> cache_entry option"
  calls :: "producer list"

record query_result =
  data :: "jsvalue option"
  isLoading :: bool
  isError :: bool
  error :: "js_error option"

definition idle_result :: query_result where
  "idle_result = \<lparr>data = None, isLoading = False, isError = False, error = None\<rparr>"

definition report :: "cache_entry \<Rightarrow> query_result" where
  "report e =
     \<lparr>data = entry_data e,
      isLoading = (entry_status e = Fetching \<and> entry_data e = None),
      isError = (entry_status e = Failed),
      error = entry_error e\<rparr>"

definition start_fetch ::
  "orchestrator \<Rightarrow> query_options \<Rightarrow> cache_entry \<Rightarrow> orchestrator \<times> query_result" where
  "start_fetch s q e =
     (let e' = e\<lparr>entry_status := Fetching\<rparr>
      in (s\<lparr>cache := (cache s)(queryKey q \<mapsto> e'), calls := calls s @ [queryFn q]\<rparr>,
          report e'))"

definition useQuery :: "orchestrator \<Rightarrow> query_options \<Rightarrow> orchestrator \<times> query_result" where
  "useQuery s q =
     (if enabled q = Some False then (s, idle_result)
      else case cache s (queryKey q) of
             None \<Rightarrow>
               start_fetch s q
                 \<lparr>entry_data = None, entry_error = None, entry_status = Fetching\<rparr>
           | Some e \<Rightarrow>
               if entry_status e = Stale then start_fetch s q e else (s, report e))"

text \<open>The request in flight for a key completes, with the outcome of its producer.\<close>

definition settle :: "orchestrator \<Rightarrow> key \<Rightarrow> js_error + jsvalue \<Rightarrow> orchestrator" where
  "settle s k outcome =
     (case cache s k of
        None \<Rightarrow> s
      | Some e \<Rightarrow>
          if entry_status e = Fetching
          then (case outcome of
                  Inr v \<Rightarrow>
                    s\<lparr>cache := (cache s)(k \<mapsto>
                      \<lparr>entry_data = Some v, entry_error = None, entry_status = Fresh\<rparr>)\<rparr>
                | Inl err \<Rightarrow>
                    s\<lparr>cache := (cache s)(k \<mapsto>
                      e\<lparr>entry_error := Some err, entry_status := Failed\<rparr>)\<rparr>)
          else s)"

text \<open>A consumer that renders again and again, with the options of each render.\<close>

fun renders ::
  "orchestrator \<Rightarrow> query_options list \<Rightarrow> orchestrator \<times> query_result list" where
  "renders s [] = (s, [])"
| "renders s (q # qs) =
     (case useQuery s q of
        (s', r) \<Rightarrow> (case renders s' qs of (s'', rs) \<Rightarrow> (s'', r # rs)))"

text \<open>The hooks proper: the options of each, handed to \<open>useQuery\<close>.\<close>

definition usePosts :: "orchestrator \<Rightarrow> orchestrator \<times> query_result" where
  "usePosts s = useQuery s usePosts_options"

definition usePost ::
  "orchestrator \<Rightarrow> jsvalue \<Rightarrow> overrides option \<Rightarrow> orchestrator \<times> query_result" where
  "usePost s ident options = useQuery s (usePost_options ident options)"

definition usePostComments :: "orchestrator \<Rightarrow> jsvalue \<Rightarrow> orchestrator \<times> query_result" where
  "usePostComments s postId = useQuery s (usePostComments_options postId)"

definition empty_orchestrator :: orchestrator where
  "empty_orchestrator = \<lparr>cache = Map.empty, calls = []\<rparr>"

section \<open>The view layer (components/PostsList.tsx, components/PostCard.tsx)\<close>

text \<open>
  The component state of \<open>PostsList\<close>. \<open>selectedPostId\<close> is a number or \<open>null\<close>; the
  non-null assertion \<open>selectedPostId!\<close> is erased at run time, so \<open>usePost\<close> receives
  \<open>null\<close> when nothing is selected.
\<close>

datatype view_mode = Grid | ListMode

record posts_list_state =
  selectedPostId :: "int option"
  searchTerm :: string
  viewMode :: view_mode

fun id_value :: "int option \<Rightarrow> jsvalue" where
  "id_value None = JNull"
| "id_value (Some n) = JNum n"

definition PostsList_usePost_options :: "posts_list_state \<Rightarrow> query_options" where
  "PostsList_usePost_options st =
     usePost_options (id_value (selectedPostId st))
       (Some \<lparr>enabled_override = Some (truthy (id_value (selectedPostId st)))\<rparr>)"

definition handlePostClick :: "posts_list_state \<Rightarrow> 'c post \<Rightarrow> posts_list_state" where
  "handlePostClick st p =
     (if selectedPostId st = Some (post_id p)
      then st\<lparr>selectedPostId := None\<rparr>
      else st\<lparr>selectedPostId := Some (post_id p)\<rparr>)"











text \<open>
  \<open>PostCard\<close>. The rendered output is the element tree and what the root element's
  click handler does when fired, \<open>onClick?.(post)\<close>: nothing when no \<open>onClick\<close> was
  given. The component destructures \<open>post\<close> and \<open>onClick\<close> from its props.
\<close>

datatype vnode = Element string string "vnode list" | Text string | Number int

record 'a post_card_props =
  post :: "char post"
  onClick :: "(char post \<Rightarrow> 'a) option"
  isSelected :: "bool option"

record 'a rendered =
  tree :: vnode
  click :: "'a option"

definition PostCard :: "'a post_card_props \<Rightarrow> 'a rendered" where
  "PostCard props =
     \<lparr>tree =
        Element ''div''
          ''cursor-pointer rounded-lg border p-4 transition-shadow hover:shadow-md''
          [Element ''h3'' ''mb-2 text-lg font-semibold capitalize''
             [Text (title (post props))],
           Element ''p'' ''line-clamp-3 text-gray-600'' [Text (body (post props))],
           Element ''div'' ''mt-2 text-sm text-gray-500''
             [Text ''User ID: '', Number (userId (post props)),
              Text '' | Post ID: '', Number (post_id (post props))]],
      click = (case onClick props of None \<Rightarrow> None | Some f \<Rightarrow> Some (f (post props)))\<rparr>"

definition PostsList_card ::
  "posts_list_state \<Rightarrow> char post \<Rightarrow> posts_list_state rendered" where
  "PostsList_card st p =
     PostCard
       \<lparr>post = p,
        onClick = Some (handlePostClick st),
        isSelected = Some (selectedPostId st = Some (post_id p))\<rparr>"

text \<open>
  The state \<open>PostsList\<close> starts in (the initial values of its \<open>useState\<close> calls), a
  post as \<open>/posts\<close> serves it, and the orchestrator after that post has been clicked
  in the initial state and its detail has arrived.
\<close>

definition initial_state :: posts_list_state where
  "initial_state = \<lparr>selectedPostId = None, searchTerm = [], viewMode = Grid\<rparr>"

definition post_one :: "char post" where
  "post_one = \<lparr>post_id = 1, userId = 1, title = ''a'', body = ''b''\<rparr>"

definition post_one_json :: jsvalue where
  "post_one_json =
     JObj [(''userId'', JNum 1), (''id'', JNum 1), (''title'', JStr ''a''), (''body'', JStr ''b'')]"

definition detail_loaded :: orchestrator where
  "detail_loaded =
     settle
       (fst (useQuery empty_orchestrator
          (PostsList_usePost_options (handlePostClick initial_state post_one))))
       (posts_detail (JNum 1)) (Inr post_one_json)"

section \<open>Properties of the key builder\<close>

lemmas key_defs =
  posts_all_def posts_lists_def posts_list_def posts_details_def posts_detail_def
  posts_comments_def users_all_def users_lists_def users_details_def users_detail_def

lemma posts_key_head: "\<exists>rest. posts_key m = JStr ''posts'' # rest"
  by (cases m) (simp_all add: key_defs)

lemma users_key_head: "\<exists>rest. users_key m = JStr ''users'' # rest"
  by (cases m) (simp_all add: key_defs)

text \<open>
  C1. The key of a sub-resource strictly extends the key of its parent: \<open>lists()\<close>
  extends \<open>all\<close>, \<open>list(filters)\<close> extends \<open>lists()\<close>, \<open>details()\<close> extends \<open>all\<close>,
  \<open>detail(id)\<close> extends \<open>details()\<close> and \<open>comments(postId)\<close> extends
  \<open>detail(postId)\<close>, for every filters object and every identifier, in the posts
  namespace and (for the members it has) in the users namespace.
\<close>

theorem key_strict_extension:
  "strict_prefix posts_all (posts_lists ())
   \<and> strict_prefix (posts_lists ()) (posts_list filters)
   \<and> strict_prefix posts_all (posts_details ())
   \<and> strict_prefix (posts_details ()) (posts_detail ident)
   \<and> strict_prefix (posts_detail postId) (posts_comments postId)
   \<and> strict_prefix users_all (users_lists ())
   \<and> strict_prefix users_all (users_details ())
   \<and> strict_prefix (users_details ()) (users_detail ident)"
  by (simp add: key_defs strict_prefix_def)

text \<open>
  C2. Two different identifiers give different detail keys, for posts and for users,
  and each detail key strictly extends the \<open>details()\<close> key of its namespace.
\<close>

theorem detail_keys_distinct:
  "id1 \<noteq> id2 \<Longrightarrow>
     posts_detail (JNum id1) \<noteq> posts_detail (JNum id2)
   \<and> users_detail (JNum id1) \<noteq> users_detail (JNum id2)
   \<and> strict_prefix (posts_details ()) (posts_detail (JNum id1))
   \<and> strict_prefix (posts_details ()) (posts_detail (JNum id2))
   \<and> strict_prefix (users_details ()) (users_detail (JNum id1))
   \<and> strict_prefix (users_details ()) (users_detail (JNum id2))"
  by (simp add: key_defs strict_prefix_def)

theorem detail_keys_distinct_witness:
  "(1::int) \<noteq> 2
   \<and> posts_detail (JNum 1) \<noteq> posts_detail (JNum 2)
   \<and> users_detail (JNum 1) \<noteq> users_detail (JNum 2)
   \<and> strict_prefix (posts_details ()) (posts_detail (JNum 1))
   \<and> strict_prefix (posts_details ()) (posts_detail (JNum 2))
   \<and> strict_prefix (users_details ()) (users_detail (JNum 1))
   \<and> strict_prefix (users_details ()) (users_detail (JNum 2))"
  using detail_keys_distinct [of 1 2] by simp

text \<open>
  C9. The two namespaces are disjoint: every key built under \<open>queryKeys.posts\<close> starts
  with the segment \<open>'posts'\<close>, every key built under \<open>queryKeys.users\<close> starts with
  \<open>'users'\<close>, and no key of one namespace equals or is a prefix of a key of the other.
  Invalidation matches a cache entry when the invalidated key is a prefix of the entry's
  key, so invalidating a key of one namespace matches no entry of the other.
\<close>

theorem namespaces_disjoint:
  "(\<exists>rest. posts_key p = JStr ''posts'' # rest)
   \<and> (\<exists>rest. users_key u = JStr ''users'' # rest)
   \<and> posts_key p \<noteq> users_key u
   \<and> \<not> prefix (posts_key p) (users_key u)
   \<and> \<not> prefix (users_key u) (posts_key p)"
proof -
  obtain ps where p: "posts_key p = JStr ''posts'' # ps"
    using posts_key_head by blast
  obtain us where u: "users_key u = JStr ''users'' # us"
    using users_key_head by blast
  show ?thesis
    by (simp add: p u)
qed

section \<open>Properties of the resource client\<close>

text \<open>
  C3, as stated, fails. Against a server that answers HTTP 500, \<open>getPosts\<close> fails with
  a plain \<open>Error\<close> whose only content is its message; reading \<open>statusCode\<close> from it
  gives \<open>undefined\<close>, not 500.
\<close>

theorem request_error_statusCode_counterexample:
  "postsAPI_getPosts server_500 = Inl (Error ''HTTP error! status: 500'')
   \<and> error_property (Error ''HTTP error! status: 500'') ''statusCode'' = None
   \<and> error_property (Error ''HTTP error! status: 500'') ''statusCode'' \<noteq> Some (JNum 500)"
  by (simp add: postsAPI_getPosts_def fetchFromAPI_def server_500_def number_to_string_def
      error_property_def)

text \<open>
  C3, amended. For every request whose response is not ok, the resource client fails
  with a plain \<open>Error\<close> whose message is \<open>HTTP error! status: \<close> followed by the status
  code in decimal. The status code is carried in that message only: the error has no
  \<open>statusCode\<close> property.
\<close>

theorem request_error_message:
  "fetch (BASE_URL @ endpoint) = Resolved r \<Longrightarrow> \<not> ok r \<Longrightarrow>
     fetchFromAPI fetch endpoint
       = Inl (Error (''HTTP error! status: '' @ number_to_string (int (status r))))
     \<and> error_property (Error (''HTTP error! status: '' @ number_to_string (int (status r))))
           ''message''
         = Some (JStr (''HTTP error! status: '' @ number_to_string (int (status r))))
     \<and> error_property (Error (''HTTP error! status: '' @ number_to_string (int (status r))))
           ''statusCode'' = None"
  by (simp add: fetchFromAPI_def error_property_def)

theorem request_error_message_witness:
  "server_500 (BASE_URL @ ''/posts'')
     = Resolved \<lparr>ok = False, status = 500, json = Inr (JObj [])\<rparr>
   \<and> \<not> ok \<lparr>ok = False, status = 500, json = Inr (JObj [])\<rparr>
   \<and> fetchFromAPI server_500 ''/posts'' = Inl (Error ''HTTP error! status: 500'')
   \<and> error_property (Error ''HTTP error! status: 500'') ''message''
         = Some (JStr ''HTTP error! status: 500'')
   \<and> error_property (Error ''HTTP error! status: 500'') ''statusCode'' = None"
  using request_error_message
    [of server_500 "''/posts''" "\<lparr>ok = False, status = 500, json = Inr (JObj [])\<rparr>"]
  by (simp add: server_500_def number_to_string_def)

text \<open>
  C4, as stated, fails. Against a server that answers HTTP 200 with the JSON object
  \<open>{"unexpected": true}\<close>, \<open>getPosts\<close> succeeds and returns that object, which is not
  an array of posts: no error is raised for the mismatch.
\<close>

theorem decode_error_counterexample:
  "postsAPI_getPosts server_wrong_shape = Inr (JObj [(''unexpected'', JBool True)])
   \<and> \<not> is_Post_array (JObj [(''unexpected'', JBool True)])"
  by (simp add: postsAPI_getPosts_def fetchFromAPI_def server_wrong_shape_def)

text \<open>
  C4, amended. For every ok response, the resource client returns exactly the outcome
  of \<open>response.json()\<close>: the parsed value, whatever its shape, or the parser's error
  when the body is not JSON. The expected type is not checked.
\<close>

theorem ok_response_returns_json:
  "fetch (BASE_URL @ endpoint) = Resolved r \<Longrightarrow> ok r \<Longrightarrow>
     fetchFromAPI fetch endpoint = json r"
  by (simp add: fetchFromAPI_def)

theorem ok_response_returns_json_witness:
  "server_wrong_shape (BASE_URL @ ''/posts'')
     = Resolved \<lparr>ok = True, status = 200, json = Inr (JObj [(''unexpected'', JBool True)])\<rparr>
   \<and> ok \<lparr>ok = True, status = 200, json = Inr (JObj [(''unexpected'', JBool True)])\<rparr>
   \<and> fetchFromAPI server_wrong_shape ''/posts'' = Inr (JObj [(''unexpected'', JBool True)])"
  using ok_response_returns_json [of server_wrong_shape "''/posts''"
      "\<lparr>ok = True, status = 200, json = Inr (JObj [(''unexpected'', JBool True)])\<rparr>"]
  by (simp add: server_wrong_shape_def)

section \<open>Properties of the gate\<close>

lemma useQuery_gated: "enabled q = Some False \<Longrightarrow> useQuery s q = (s, idle_result)"
  by (simp add: useQuery_def)

lemma renders_gated:
  "list_all (\<lambda>q. enabled q = Some False) qs \<Longrightarrow>
     renders s qs = (s, replicate (length qs) idle_result)"
  by (induction qs) (simp_all add: useQuery_gated)

lemma useQuery_fresh:
  "cache s (queryKey q) = Some e \<Longrightarrow> entry_status e = Fresh \<Longrightarrow>
     useQuery s q = (s, if enabled q = Some False then idle_result else report e)"
  by (simp add: useQuery_def)

lemma PostsList_gate:
  "enabled (PostsList_usePost_options st) = Some (truthy (id_value (selectedPostId st)))"
  by (simp add: PostsList_usePost_options_def usePost_options_def)

lemma PostsList_queryKey:
  "queryKey (PostsList_usePost_options st) = posts_detail (id_value (selectedPostId st))"
  by (simp add: PostsList_usePost_options_def usePost_options_def)

text \<open>
  C5. A query whose \<open>enabled\<close> gate is false never invokes its producer and reports no
  data, no error and not loading, for as long as the gate stays false: over any run of
  renders whose options all have the gate false, the orchestrator (its cache and its
  log of producer calls) is unchanged and every report is the idle one. \<open>usePost\<close>
  without options and \<open>usePostComments\<close> are such queries whenever their identifier is
  falsy, as an absent one is.
\<close>

theorem gated_query_idle:
  "((\<forall>q \<in> set qs. enabled q = Some False) \<longrightarrow>
       renders s qs = (s, replicate (length qs) idle_result)
       \<and> calls (fst (renders s qs)) = calls s)
   \<and> (\<not> truthy ident \<longrightarrow>
         usePost s ident None = (s, idle_result)
       \<and> usePostComments s ident = (s, idle_result))
   \<and> data idle_result = None \<and> error idle_result = None
   \<and> \<not> isError idle_result \<and> \<not> isLoading idle_result"
  by (simp add: renders_gated list_all_iff useQuery_gated usePost_def usePostComments_def
      usePost_options_def usePostComments_options_def idle_result_def)

theorem gated_query_idle_witness:
  "enabled (usePost_options JNull None) = Some False
   \<and> enabled (usePostComments_options JNull) = Some False
   \<and> enabled (usePost_options (JNum 7) (Some \<lparr>enabled_override = Some False\<rparr>)) = Some False
   \<and> renders empty_orchestrator
        [usePost_options JNull None, usePostComments_options JNull,
         usePost_options (JNum 7) (Some \<lparr>enabled_override = Some False\<rparr>)]
       = (empty_orchestrator, [idle_result, idle_result, idle_result])
   \<and> calls empty_orchestrator = []
   \<and> \<not> truthy JNull
   \<and> usePost empty_orchestrator JNull None = (empty_orchestrator, idle_result)
   \<and> usePostComments empty_orchestrator JNull = (empty_orchestrator, idle_result)"
  using gated_query_idle
    [of "[usePost_options JNull None, usePostComments_options JNull,
          usePost_options (JNum 7) (Some \<lparr>enabled_override = Some False\<rparr>)]"
        empty_orchestrator JNull]
  by (simp add: usePost_options_def usePostComments_options_def empty_orchestrator_def
      numeral_3_eq_3)

text \<open>
  C8. \<open>usePost\<close> called with the identifier 0 has its default gate \<open>!!id\<close> false, and so
  has the call in \<open>PostsList\<close> when the selected identifier is 0, whose override is
  \<open>!!selectedPostId\<close>. The detail query for identifier 0 is gated off for good: however
  many times it is rendered, in whatever state, its producer is not invoked and it
  reports the idle result.
\<close>

theorem usePost_zero_gated_off:
  "enabled (usePost_options (JNum 0) None) = Some False
   \<and> enabled (PostsList_usePost_options
        \<lparr>selectedPostId = Some 0, searchTerm = needle, viewMode = mode\<rparr>) = Some False
   \<and> renders s (replicate n (usePost_options (JNum 0) None)) = (s, replicate n idle_result)
   \<and> calls (fst (renders s (replicate n (usePost_options (JNum 0) None)))) = calls s
   \<and> usePost s (JNum 0) None = (s, idle_result)"
proof -
  have gate: "enabled (usePost_options (JNum 0) None) = Some False"
    by (simp add: usePost_options_def)
  then have "list_all (\<lambda>q. enabled q = Some False) (replicate n (usePost_options (JNum 0) None))"
    by (simp add: list_all_iff)
  then have "renders s (replicate n (usePost_options (JNum 0) None))
      = (s, replicate n idle_result)"
    using renders_gated by fastforce
  then show ?thesis
    using gate by (simp add: PostsList_gate usePost_def useQuery_gated)
qed

section \<open>Properties of the view layer\<close>








text \<open>
  C7. Clicking the post that is selected clears the selection; clicking a post when
  another or none is selected selects it. After the click that clears the selection
  the detail query is gated off, so the render issues no call; and a click that selects
  a post whose detail is cached and fresh issues no call either: the orchestrator, and
  with it the log of producer calls, is unchanged.
\<close>

theorem handlePostClick_toggle:
  "(selectedPostId st = Some (post_id p) \<longrightarrow>
       selectedPostId (handlePostClick st p) = None
     \<and> useQuery s (PostsList_usePost_options (handlePostClick st p)) = (s, idle_result))
   \<and> (selectedPostId st \<noteq> Some (post_id p) \<longrightarrow>
       selectedPostId (handlePostClick st p) = Some (post_id p))
   \<and> (selectedPostId st \<noteq> Some (post_id p)
       \<and> cache s (posts_detail (JNum (post_id p))) = Some e \<and> entry_status e = Fresh \<longrightarrow>
       fst (useQuery s (PostsList_usePost_options (handlePostClick st p))) = s
     \<and> calls (fst (useQuery s (PostsList_usePost_options (handlePostClick st p)))) = calls s)"
proof -
  have off: "useQuery s (PostsList_usePost_options (handlePostClick st p)) = (s, idle_result)"
    if "selectedPostId st = Some (post_id p)"
    using that by (simp add: useQuery_gated PostsList_gate handlePostClick_def)
  have on: "fst (useQuery s (PostsList_usePost_options (handlePostClick st p))) = s"
    if "selectedPostId st \<noteq> Some (post_id p)"
      and "cache s (posts_detail (JNum (post_id p))) = Some e" and "entry_status e = Fresh"
    using that useQuery_fresh [of s "PostsList_usePost_options (handlePostClick st p)" e]
    by (simp add: PostsList_queryKey handlePostClick_def)
  show ?thesis
    using off on by (simp add: handlePostClick_def)
qed

lemma detail_loaded_eq:
  "detail_loaded =
     \<lparr>cache = [posts_detail (JNum 1) \<mapsto>
         \<lparr>entry_data = Some post_one_json, entry_error = None, entry_status = Fresh\<rparr>],
      calls = [GetPost (JNum 1)]\<rparr>"
  by (simp add: detail_loaded_def settle_def useQuery_def start_fetch_def
      PostsList_usePost_options_def usePost_options_def handlePostClick_def
      initial_state_def post_one_def empty_orchestrator_def Let_def)

theorem handlePostClick_toggle_witness:
  "selectedPostId (handlePostClick initial_state post_one) = Some (post_id post_one)
   \<and> selectedPostId (handlePostClick (handlePostClick initial_state post_one) post_one) = None
   \<and> useQuery detail_loaded
        (PostsList_usePost_options
           (handlePostClick (handlePostClick initial_state post_one) post_one))
       = (detail_loaded, idle_result)
   \<and> selectedPostId initial_state \<noteq> Some (post_id post_one)
   \<and> cache detail_loaded (posts_detail (JNum (post_id post_one)))
       = Some \<lparr>entry_data = Some post_one_json, entry_error = None, entry_status = Fresh\<rparr>
   \<and> fst (useQuery detail_loaded
        (PostsList_usePost_options (handlePostClick initial_state post_one))) = detail_loaded
   \<and> calls detail_loaded = [GetPost (JNum 1)]"
proof -
  have sel: "selectedPostId (handlePostClick initial_state post_one) = Some (post_id post_one)"
    by (simp add: handlePostClick_def initial_state_def)
  have none: "selectedPostId initial_state \<noteq> Some (post_id post_one)"
    by (simp add: initial_state_def)
  have fresh: "cache detail_loaded (posts_detail (JNum (post_id post_one)))
       = Some \<lparr>entry_data = Some post_one_json, entry_error = None, entry_status = Fresh\<rparr>"
    by (simp add: detail_loaded_eq post_one_def)
  show ?thesis
    using sel none fresh
      handlePostClick_toggle
        [of "handlePostClick initial_state post_one" post_one detail_loaded]
      handlePostClick_toggle
        [of initial_state post_one detail_loaded
          "\<lparr>entry_data = Some post_one_json, entry_error = None, entry_status = Fresh\<rparr>"]
    by (simp add: detail_loaded_eq)
qed

text \<open>
  C10. The output of \<open>PostCard\<close> does not depend on its \<open>isSelected\<close> prop: for a fixed
  post and \<open>onClick\<close>, any two values of \<open>isSelected\<close> give the same output. So the
  element tree of a card that \<open>PostsList\<close> renders is the same whichever post is
  selected, although \<open>PostsList\<close> passes \<open>isSelected\<close> for the selected card.
\<close>

theorem PostCard_ignores_isSelected:
  "PostCard (props\<lparr>isSelected := a\<rparr>) = PostCard (props\<lparr>isSelected := b\<rparr>)
   \<and> tree (PostsList_card st p) = tree (PostsList_card (st\<lparr>selectedPostId := sel\<rparr>) p)"
  by (simp add: PostCard_def PostsList_card_def split: option.split)

end
